theory Spec2Isabelle
  imports Main
begin

section \<open>The JavaScript values and library functions used by the builder\<close>

text \<open>
  A plain JavaScript object is modelled by the list of its own enumerable properties, in the
  order in which \<^verbatim>\<open>Object.keys\<close> enumerates them. The property names of an object
  are pairwise distinct; theorems that depend on this say so.
\<close>

type_synonym 'v js_object = "(string \<times> 'v) list"

text \<open>
  The scalar values of a JSON request body. The builder is polymorphic in the type of the
  values of the field map; this type instantiates it in the examples. Numbers are the
  integral ones.
\<close>

datatype jsval = JNull | JBool bool | JNum int | JStr string

definition Object_keys :: "'v js_object \<Rightarrow> string list" where
  "Object_keys obj = map fst obj"

definition Object_values :: "'v js_object \<Rightarrow> 'v list" where
  "Object_values obj = map snd obj"

text \<open>
  The own property of an object under a name, if it has one. A read \<^verbatim>\<open>obj[k]\<close> at a
  name \<open>k\<close> that is an own property of \<open>obj\<close> yields that property.
\<close>

definition own_property :: "'v js_object \<Rightarrow> string \<Rightarrow> 'v option" where
  "own_property obj k = map_of obj k"

text \<open>
  A translation table is an object whose own properties are strings, the column names. A
  read \<^verbatim>\<open>jsToSql[colName]\<close> is an ordinary property read: where the table has no own
  property of that name it finds the member of that name on the prototype chain of the
  table, if there is one. A member is a string, or a function or an object; of a function
  or an object the model keeps the text that string conversion gives it.
\<close>

datatype member = Str string | Obj string

record js_table =
  own :: "string js_object"
  inherited :: "member js_object"

text \<open>
  The members of \<^verbatim>\<open>Object.prototype\<close> in Node.js. All are functions but
  \<^verbatim>\<open>__proto__\<close>, whose read yields \<^verbatim>\<open>Object.prototype\<close> itself. A table written as an
  object literal inherits them.
\<close>

definition native :: "string \<Rightarrow> member" where
  "native f = Obj (''function '' @ f @ ''() { [native code] }'')"

definition Object_prototype :: "member js_object" where
  "Object_prototype =
     [(''constructor'', native ''Object''),
      (''__defineGetter__'', native ''__defineGetter__''),
      (''__defineSetter__'', native ''__defineSetter__''),
      (''hasOwnProperty'', native ''hasOwnProperty''),
      (''__lookupGetter__'', native ''__lookupGetter__''),
      (''__lookupSetter__'', native ''__lookupSetter__''),
      (''isPrototypeOf'', native ''isPrototypeOf''),
      (''propertyIsEnumerable'', native ''propertyIsEnumerable''),
      (''toString'', native ''toString''),
      (''valueOf'', native ''valueOf''),
      (''__proto__'', Obj ''[object Object]''),
      (''toLocaleString'', native ''toLocaleString'')]"

definition object_literal :: "string js_object \<Rightarrow> js_table" where
  "object_literal props = \<lparr>own = props, inherited = Object_prototype\<rparr>"

text \<open>
  The property read \<^verbatim>\<open>jsToSql[k]\<close>: the own property first, then the inherited
  member; \<open>None\<close> stands for \<^verbatim>\<open>undefined\<close>.
\<close>

definition js_get :: "js_table \<Rightarrow> string \<Rightarrow> member option" where
  "js_get t k =
     (case own_property (own t) k of
        Some s \<Rightarrow> Some (Str s)
      | None \<Rightarrow> own_property (inherited t) k)"

text \<open>
  The empty string is falsy; every other string, every function and every object is truthy.
\<close>

fun truthy :: "member \<Rightarrow> bool" where
  "truthy (Str s) = (s \<noteq> [])"
| "truthy (Obj txt) = True"

text \<open>The string that a template literal writes for a member.\<close>

fun ToString :: "member \<Rightarrow> string" where
  "ToString (Str s) = s"
| "ToString (Obj txt) = txt"

text \<open>
  \<^verbatim>\<open>`${a || b}`\<close> where \<^verbatim>\<open>a\<close> is the result of a read and \<^verbatim>\<open>b\<close> a string:
  \<^verbatim>\<open>a || b\<close> is \<^verbatim>\<open>a\<close> when \<^verbatim>\<open>a\<close> is truthy and \<^verbatim>\<open>b\<close> when it is
  \<^verbatim>\<open>undefined\<close> or falsy.
\<close>

definition js_or :: "member option \<Rightarrow> string \<Rightarrow> string" where
  "js_or a b = (case a of None \<Rightarrow> b | Some v \<Rightarrow> if truthy v then ToString v else b)"

text \<open>
  \<^verbatim>\<open>xs.map((x, idx) => f(x, idx))\<close>: the callback receives the element and its
  index, counted from 0.
\<close>

primrec map_idx :: "('a \<Rightarrow> nat \<Rightarrow> 'b) \<Rightarrow> nat \<Rightarrow> 'a list \<Rightarrow> 'b list" where
  "map_idx f i [] = []"
| "map_idx f i (x # xs) = f x i # map_idx f (Suc i) xs"

definition Array_map :: "('a \<Rightarrow> nat \<Rightarrow> 'b) \<Rightarrow> 'a list \<Rightarrow> 'b list" where
  "Array_map f xs = map_idx f 0 xs"

text \<open>\<^verbatim>\<open>xs.join(sep)\<close> on an array of strings.\<close>

fun join :: "string \<Rightarrow> string list \<Rightarrow> string" where
  "join sep [] = []"
| "join sep [x] = x"
| "join sep (x # y # ys) = x @ sep @ join sep (y # ys)"

text \<open>
  The string of a non-negative integer inside a template literal: its decimal digits,
  without leading zeros.
\<close>

fun toString_nat :: "nat \<Rightarrow> string" where
  "toString_nat n =
     (if n < 10 then [''0123456789'' ! n]
      else toString_nat (n div 10) @ [''0123456789'' ! (n mod 10)])"

declare toString_nat.simps [simp del]

section \<open>helpers/sql.js\<close>

datatype error = BadRequestError string | NotFoundError string

record 'v partial_update =
  setCols :: string
  "values" :: "'v list"

text \<open>
  The callback of \<^verbatim>\<open>keys.map\<close>:
  \<^verbatim>\<open>(colName, idx) => `"${jsToSql[colName] || colName}"=$${idx + 1}`\<close>.
\<close>

definition col_fragment :: "js_table \<Rightarrow> string \<Rightarrow> nat \<Rightarrow> string" where
  \<open>col_fragment jsToSql colName idx =
     ''"'' @ js_or (js_get jsToSql colName) colName @ ''"=$'' @ toString_nat (idx + 1)\<close>

definition sqlForPartialUpdate ::
  "'v js_object \<Rightarrow> js_table \<Rightarrow> error + 'v partial_update" where
  "sqlForPartialUpdate dataToUpdate jsToSql =
     (let keys = Object_keys dataToUpdate in
      if length keys = 0 then Inl (BadRequestError ''No data'')
      else
        let cols = Array_map (col_fragment jsToSql) keys
        in Inr \<lparr>setCols = join '', '' cols, values = Object_values dataToUpdate\<rparr>)"

section \<open>The store\<close>

text \<open>
  Objects and arrays are reached through references. A call receives references to its
  arguments, and could write through them; the store makes that explicit. A cell holds a
  request body (\<open>Fields\<close>), a translation table (\<open>Names\<close>) or an array of values
  (\<open>Values\<close>). The trace records the calls of \<^verbatim>\<open>db.query\<close>, the only
  input and output of the model classes.
\<close>

type_synonym addr = nat

datatype 'v cell =
    Fields "'v js_object"
  | Names js_table
  | Values "'v list"

datatype 'v event = DbQuery string "'v list"

record 'v world =
  heap :: "'v cell list"
  trace :: "'v event list"

definition deref :: "'v world \<Rightarrow> addr \<Rightarrow> 'v cell option" where
  "deref w a = (if a < length (heap w) then Some (heap w ! a) else None)"

definition alloc :: "'v cell \<Rightarrow> 'v world \<Rightarrow> addr \<times> 'v world" where
  "alloc c w = (length (heap w), w\<lparr>heap := heap w @ [c]\<rparr>)"

text \<open>
  \<^verbatim>\<open>sqlForPartialUpdate\<close> called on references. It reads the two objects and computes
  as above. The arrays \<^verbatim>\<open>keys\<close> and \<^verbatim>\<open>cols\<close> do not outlive the call and are
  left out of the store; \<^verbatim>\<open>Object.values\<close> returns a new array, which is allocated.
  The returned object is the pair of the clause and the reference to that array. The result
  is \<open>None\<close> when an argument is not a reference to an object of the documented shape.
\<close>

definition sqlForPartialUpdate_st ::
  "addr \<Rightarrow> addr \<Rightarrow> 'v world \<Rightarrow> ((error + string \<times> addr) \<times> 'v world) option" where
  "sqlForPartialUpdate_st dataToUpdate jsToSql w =
     (case (deref w dataToUpdate, deref w jsToSql) of
        (Some (Fields m), Some (Names t)) \<Rightarrow>
          (case sqlForPartialUpdate m t of
             Inl e \<Rightarrow> Some (Inl e, w)
           | Inr r \<Rightarrow>
               (let (a, w') = alloc (Values (values r)) w
                in Some (Inr (setCols r, a), w')))
      | _ \<Rightarrow> None)"

text \<open>
  What a caller observes of a result: the error, or the clause and the contents of the
  array of values.
\<close>

definition observe ::
  "'v world \<Rightarrow> error + string \<times> addr \<Rightarrow> (error + string \<times> 'v list) option" where
  "observe w res =
     (case res of
        Inl e \<Rightarrow> Some (Inl e)
      | Inr (clause, a) \<Rightarrow>
          (case deref w a of Some (Values vs) \<Rightarrow> Some (Inr (clause, vs)) | _ \<Rightarrow> None))"

section \<open>models/job.js\<close>

text \<open>The template literal of \<^verbatim>\<open>Job.update\<close>, with its line breaks and indentation.\<close>

definition querySql_text :: "string \<Rightarrow> string \<Rightarrow> string" where
  \<open>querySql_text clause job_id =
     ''UPDATE jobs\<newline>'' @
     ''                      SET '' @ clause @ '' \<newline>'' @
     ''                      WHERE id = '' @ job_id @ '' \<newline>'' @
     ''                      RETURNING id, \<newline>'' @
     ''                                title, \<newline>'' @
     ''                                salary, \<newline>'' @
     ''                                equity,\<newline>'' @
     ''                                company_handle AS "companyHandle"''\<close>

text \<open>
  \<^verbatim>\<open>Job.update(id, data)\<close>. The database is outside the model: \<open>db_rows\<close> gives the rows
  it answers to a statement and its parameters. The call of \<^verbatim>\<open>db.query\<close> is recorded in
  the trace with the statement and the contents of the array \<^verbatim>\<open>[...values]\<close>.
  The parameter \<^verbatim>\<open>id\<close> is written \<open>job_id\<close>, since \<open>id\<close> is the identity function
  of HOL; it is the string \<^verbatim>\<open>req.params.id\<close>.
\<close>

definition Job_update ::
  "(string \<Rightarrow> 'v list \<Rightarrow> 'r list) \<Rightarrow> string \<Rightarrow> addr \<Rightarrow> 'v world
     \<Rightarrow> ((error + 'r) \<times> 'v world) option" where
  "Job_update db_rows job_id data w =
     (let (jsToSql, w1) = alloc (Names (object_literal [(''companyHandle'', ''company_handle'')])) w in
      case sqlForPartialUpdate_st data jsToSql w1 of
        None \<Rightarrow> None
      | Some (Inl e, w2) \<Rightarrow> Some (Inl e, w2)
      | Some (Inr (clause, vals), w2) \<Rightarrow>
          (case deref w2 vals of
             Some (Values vs) \<Rightarrow>
               (let querySql = querySql_text clause job_id;
                    (params, w3) = alloc (Values vs) w2;
                    w4 = w3\<lparr>trace := trace w3 @ [DbQuery querySql vs]\<rparr>
                in case db_rows querySql vs of
                     [] \<Rightarrow> Some (Inl (NotFoundError (''No job with id: '' @ job_id)), w4)
                   | job # _ \<Rightarrow> Some (Inr job, w4))
           | _ \<Rightarrow> None))"

section \<open>Reading the specification\<close>



text \<open>The number that a string of decimal digits denotes.\<close>

definition digit_val :: "char \<Rightarrow> nat" where
  "digit_val c = of_char c - 48"

definition read_nat :: "string \<Rightarrow> nat" where
  "read_nat s = foldl (\<lambda>a c. 10 * a + digit_val c) 0 s"

section \<open>Properties of the library functions\<close>



lemma map_idx_cong:
  "(\<And>x i. x \<in> set xs \<Longrightarrow> f x i = g x i) \<Longrightarrow> map_idx f n xs = map_idx g n xs"
  by (induction xs arbitrary: n) simp_all



lemma digit_val_digit: "d < 10 \<Longrightarrow> digit_val (''0123456789'' ! d) = d"
proof -
  assume "d < 10"
  then have "d = 0 \<or> d = 1 \<or> d = 2 \<or> d = 3 \<or> d = 4 \<or> d = 5 \<or> d = 6 \<or> d = 7 \<or> d = 8 \<or> d = 9"
    by arith
  then show ?thesis
    by (elim disjE) (simp_all add: digit_val_def)
qed

lemma read_nat_snoc: "read_nat (s @ [c]) = 10 * read_nat s + digit_val c"
  by (simp add: read_nat_def)

text \<open>The digits written for a number denote that number.\<close>

lemma read_nat_toString_nat: "read_nat (toString_nat n) = n"
proof (induction n rule: toString_nat.induct)
  case (1 n)
  show ?case
  proof (cases "n < 10")
    case True
    then show ?thesis
      by (subst toString_nat.simps) (simp add: read_nat_def digit_val_digit)
  next
    case False
    with 1 have "read_nat (toString_nat (n div 10)) = n div 10"
      by simp
    with False show ?thesis
      by (subst toString_nat.simps) (simp add: read_nat_snoc digit_val_digit)
  qed
qed

lemma toString_nat_inj: "toString_nat a = toString_nat b \<Longrightarrow> a = b"
  by (metis read_nat_toString_nat)

section \<open>The builder on values\<close>



lemma sqlForPartialUpdate_nonempty:
  "m \<noteq> [] \<Longrightarrow>
     sqlForPartialUpdate m t =
       Inr \<lparr>setCols = join '', '' (Array_map (col_fragment t) (Object_keys m)),
            values = Object_values m\<rparr>"
  by (simp add: sqlForPartialUpdate_def Object_keys_def)


lemmas eval_defs =
  sqlForPartialUpdate_def Object_keys_def Object_values_def Array_map_def
  col_fragment_def js_get_def js_or_def own_property_def object_literal_def
  Object_prototype_def native_def toString_nat.simps



text \<open>
  C2. For a non-empty field map \<open>m\<close> and any translation table \<open>t\<close>, the call succeeds, the
  sequence of values has the length of \<open>m\<close>, and its \<open>i\<close>-th element is the value of the
  \<open>i\<close>-th property of \<open>m\<close>; when the keys of \<open>m\<close> are pairwise distinct, as the keys of an
  object are, that is the value bound in \<open>m\<close> to its \<open>i\<close>-th key.
\<close>

theorem sqlForPartialUpdate_values:
  assumes "m \<noteq> []"
  shows "\<exists>r. sqlForPartialUpdate m t = Inr r \<and> length (values r) = length m
           \<and> (\<forall>i<length m. values r ! i = snd (m ! i))
           \<and> (distinct (Object_keys m) \<longrightarrow>
                (\<forall>i<length m. own_property m (Object_keys m ! i) = Some (values r ! i)))"
proof -
  have "distinct (map fst m) \<Longrightarrow> i < length m \<Longrightarrow> map_of m (fst (m ! i)) = Some (snd (m ! i))"
    for i
    by (metis map_of_eq_Some_iff nth_mem prod.collapse)
  with assms show ?thesis
    by (simp add: sqlForPartialUpdate_nonempty Object_values_def Object_keys_def
        own_property_def)
qed

theorem sqlForPartialUpdate_values_witness:
  "\<exists>r. sqlForPartialUpdate [(''firstName'', JStr ''Aliya''), (''age'', JNum 32)]
          (object_literal [(''firstName'', ''first_name'')]) = Inr r
     \<and> length (values r) = 2
     \<and> values r ! 0 = JStr ''Aliya'' \<and> values r ! 1 = JNum 32
     \<and> own_property [(''firstName'', JStr ''Aliya''), (''age'', JNum 32)] ''age''
         = Some (values r ! 1)"
proof -
  let ?m = "[(''firstName'', JStr ''Aliya''), (''age'', JNum 32)]"
  let ?t = "object_literal [(''firstName'', ''first_name'')]"
  have "?m \<noteq> []"
    by simp
  from sqlForPartialUpdate_values [OF this, of ?t]
  obtain r where call: "sqlForPartialUpdate ?m ?t = Inr r"
    and len: "length (values r) = length ?m"
    and pos: "\<forall>i<length ?m. values r ! i = snd (?m ! i)"
    and get: "distinct (Object_keys ?m) \<longrightarrow>
      (\<forall>i<length ?m. own_property ?m (Object_keys ?m ! i) = Some (values r ! i))"
    by blast
  from pos have "values r ! 0 = JStr ''Aliya''" and "values r ! 1 = JNum 32"
    by simp_all
  moreover have "distinct (Object_keys ?m)"
    by (simp add: Object_keys_def)
  with get have "own_property ?m (Object_keys ?m ! 1) = Some (values r ! 1)"
    by simp
  then have "own_property ?m ''age'' = Some (values r ! 1)"
    by (simp add: Object_keys_def)
  ultimately show ?thesis
    using call len by (intro exI [of _ r]) simp
qed




text \<open>
  C4. The call fails with the bad-request error carrying the message \<^verbatim>\<open>No data\<close> exactly
  when the field map is empty, and it fails at all exactly when the field map is empty: a
  non-empty field map raises no error. An error is a value \<open>Inl\<close> of the sum, which carries
  no clause and no values.
\<close>

theorem sqlForPartialUpdate_error:
  "(sqlForPartialUpdate m t = Inl (BadRequestError ''No data'')) = (m = [])
   \<and> isl (sqlForPartialUpdate m t) = (m = [])"
  by (simp add: sqlForPartialUpdate_def Object_keys_def)

text \<open>
  C6. The two examples of the specification: the field map
  \<^verbatim>\<open>{firstName: "Aliya", age: 32}\<close> with the translation
  \<^verbatim>\<open>{firstName: "first_name"}\<close> gives the clause
  \<^verbatim>\<open>"first_name"=$1, "age"=$2\<close> and the values \<^verbatim>\<open>["Aliya", 32]\<close>; the field map
  \<^verbatim>\<open>{companyHandle: "ibm"}\<close> with the translation
  \<^verbatim>\<open>{companyHandle: "company_handle"}\<close> gives the clause
  \<^verbatim>\<open>"company_handle"=$1\<close> and the values \<^verbatim>\<open>["ibm"]\<close>.
\<close>

theorem sqlForPartialUpdate_examples:
  \<open>sqlForPartialUpdate [(''firstName'', JStr ''Aliya''), (''age'', JNum 32)]
       (object_literal [(''firstName'', ''first_name'')])
     = Inr \<lparr>setCols = ''"first_name"=$1, "age"=$2'', values = [JStr ''Aliya'', JNum 32]\<rparr>
   \<and> sqlForPartialUpdate [(''companyHandle'', JStr ''ibm'')]
       (object_literal [(''companyHandle'', ''company_handle'')])
     = Inr \<lparr>setCols = ''"company_handle"=$1'', values = [JStr ''ibm'']\<rparr>\<close>
  by (simp add: eval_defs)

text \<open>
  C9. The clause does not depend on the values of the field map: two non-empty field maps
  with the same keys in the same order give the same clause under every translation table,
  whatever their values are, and even when the values are of different types.
\<close>

theorem clause_independent_of_values:
  assumes "m1 \<noteq> []" and "Object_keys m1 = Object_keys m2"
  shows "\<exists>r1 r2. sqlForPartialUpdate m1 t = Inr r1 \<and> sqlForPartialUpdate m2 t = Inr r2
           \<and> setCols r1 = setCols r2"
proof -
  from assms have "m2 \<noteq> []"
    by (auto simp add: Object_keys_def)
  with assms show ?thesis
    by (simp add: sqlForPartialUpdate_nonempty)
qed

text \<open>
  The theorem at two field maps with the keys \<^verbatim>\<open>firstName\<close> and \<^verbatim>\<open>age\<close> and different
  values.
\<close>

theorem clause_independent_of_values_witness:
  \<open>\<exists>r1 r2.
      sqlForPartialUpdate [(''firstName'', JStr ''Aliya''), (''age'', JNum 32)]
        (object_literal [(''firstName'', ''first_name'')]) = Inr r1
      \<and> sqlForPartialUpdate [(''firstName'', JNull), (''age'', JStr ''1; DROP TABLE jobs'')]
        (object_literal [(''firstName'', ''first_name'')]) = Inr r2
      \<and> setCols r1 = setCols r2 \<and> values r1 \<noteq> values r2\<close>
proof -
  let ?m1 = "[(''firstName'', JStr ''Aliya''), (''age'', JNum 32)]"
  let ?m2 = "[(''firstName'', JNull), (''age'', JStr ''1; DROP TABLE jobs'')]"
  let ?t = "object_literal [(''firstName'', ''first_name'')]"
  have "?m1 \<noteq> []" and "Object_keys ?m1 = Object_keys ?m2"
    by (simp_all add: Object_keys_def)
  from clause_independent_of_values [OF this, of ?t]
  obtain r1 r2 where 1: "sqlForPartialUpdate ?m1 ?t = Inr r1"
    and 2: "sqlForPartialUpdate ?m2 ?t = Inr r2" and eq: "setCols r1 = setCols r2"
    by blast
  from 1 2 have "values r1 \<noteq> values r2"
    by (auto simp add: sqlForPartialUpdate_nonempty Object_values_def)
  with 1 2 eq show ?thesis
    by (intro exI [of _ r1] exI [of _ r2]) simp
qed

text \<open>
  C10. Entries of the translation table for keys that the field map does not have are
  ignored: two tables that read the same at every key of \<open>m\<close> give the same result. This
  holds for the empty field map as well, where both calls fail.
\<close>

theorem translation_outside_keys_ignored:
  assumes "\<forall>k\<in>set (Object_keys m). js_get t1 k = js_get t2 k"
  shows "sqlForPartialUpdate m t1 = sqlForPartialUpdate m t2"
proof -
  have "Array_map (col_fragment t1) (Object_keys m) = Array_map (col_fragment t2) (Object_keys m)"
    unfolding Array_map_def using assms
    by (intro map_idx_cong) (simp add: col_fragment_def)
  then show ?thesis
    by (simp add: sqlForPartialUpdate_def Let_def)
qed

text \<open>
  The theorem at the field map \<^verbatim>\<open>{companyHandle: "ibm"}\<close> and two tables that differ
  outside its key.
\<close>

theorem translation_outside_keys_ignored_witness:
  "sqlForPartialUpdate [(''companyHandle'', JStr ''ibm'')]
     (object_literal [(''companyHandle'', ''company_handle'')])
   = sqlForPartialUpdate [(''companyHandle'', JStr ''ibm'')]
     (object_literal
        [(''firstName'', ''first_name''), (''companyHandle'', ''company_handle''),
         (''age'', '''')])"
proof -
  have "\<forall>k\<in>set (Object_keys [(''companyHandle'', JStr ''ibm'')]).
      js_get (object_literal [(''companyHandle'', ''company_handle'')]) k =
      js_get (object_literal [(''firstName'', ''first_name''),
        (''companyHandle'', ''company_handle''), (''age'', '''')]) k"
    by (simp add: Object_keys_def js_get_def own_property_def object_literal_def)
  then show ?thesis
    by (rule translation_outside_keys_ignored)
qed

section \<open>The builder on references\<close>

text \<open>
  A call on references to a field map and a translation table returns; it leaves the trace
  and every cell of the store as they were, and what the caller observes of the result is
  the result of the builder on the contents of the two objects.
\<close>

lemma sqlForPartialUpdate_st_frame:
  assumes "deref w d = Some (Fields m)" and "deref w j = Some (Names t)"
  shows "\<exists>res w'. sqlForPartialUpdate_st d j w = Some (res, w')
           \<and> trace w' = trace w
           \<and> (\<forall>a. a < length (heap w) \<longrightarrow> deref w' a = deref w a)
           \<and> observe w' res =
               Some (map_sum (\<lambda>e. e) (\<lambda>r. (setCols r, values r)) (sqlForPartialUpdate m t))"
  using assms
  by (cases "sqlForPartialUpdate m t")
    (auto simp add: sqlForPartialUpdate_st_def alloc_def deref_def observe_def nth_append)

lemma deref_Some_less: "deref w a = Some c \<Longrightarrow> a < length (heap w)"
  by (simp add: deref_def split: if_splits)

text \<open>
  C7. The builder is deterministic. Two calls whose arguments have the same contents give
  the same clause and the same sequence of values, wherever the arguments lie in the store
  and whatever else the store and the trace hold; and a call repeated on the same
  references, in the state the first call left, gives the same clause and the same
  sequence of values as the first.
\<close>

theorem sqlForPartialUpdate_deterministic:
  assumes "deref w1 d1 = Some (Fields m)" and "deref w1 j1 = Some (Names t)"
    and "deref w2 d2 = Some (Fields m)" and "deref w2 j2 = Some (Names t)"
  shows "(\<exists>r1 w1' r2 w2' out.
            sqlForPartialUpdate_st d1 j1 w1 = Some (r1, w1') \<and>
            sqlForPartialUpdate_st d2 j2 w2 = Some (r2, w2') \<and>
            observe w1' r1 = Some out \<and> observe w2' r2 = Some out)
       \<and> (\<exists>r wa r' wb out.
            sqlForPartialUpdate_st d1 j1 w1 = Some (r, wa) \<and>
            sqlForPartialUpdate_st d1 j1 wa = Some (r', wb) \<and>
            observe wa r = Some out \<and> observe wb r = Some out \<and> observe wb r' = Some out)"
proof -
  let ?out = "map_sum (\<lambda>e. e) (\<lambda>r. (setCols r, values r)) (sqlForPartialUpdate m t)"
  obtain r1 w1' where 1: "sqlForPartialUpdate_st d1 j1 w1 = Some (r1, w1')"
    "observe w1' r1 = Some ?out"
    "\<forall>a. a < length (heap w1) \<longrightarrow> deref w1' a = deref w1 a"
    using sqlForPartialUpdate_st_frame [OF assms(1,2)] by blast
  obtain r2 w2' where 2: "sqlForPartialUpdate_st d2 j2 w2 = Some (r2, w2')"
    "observe w2' r2 = Some ?out"
    using sqlForPartialUpdate_st_frame [OF assms(3,4)] by blast
  from assms(1,2) have "d1 < length (heap w1)" and "j1 < length (heap w1)"
    by (simp_all add: deref_Some_less)
  with 1(3) assms(1,2) have a: "deref w1' d1 = Some (Fields m)" "deref w1' j1 = Some (Names t)"
    by simp_all
  obtain r' wb where 3: "sqlForPartialUpdate_st d1 j1 w1' = Some (r', wb)"
    "observe wb r' = Some ?out"
    "\<forall>a. a < length (heap w1') \<longrightarrow> deref wb a = deref w1' a"
    using sqlForPartialUpdate_st_frame [OF a] by blast
  have "observe wb r1 = Some ?out"
    using 1(2) 3(3)
    by (cases r1) (auto simp add: observe_def deref_def split: option.splits cell.splits if_splits)
  then have "\<exists>r wa r' wb out.
      sqlForPartialUpdate_st d1 j1 w1 = Some (r, wa) \<and>
      sqlForPartialUpdate_st d1 j1 wa = Some (r', wb) \<and>
      observe wa r = Some out \<and> observe wb r = Some out \<and> observe wb r' = Some out"
    using 1(1,2) 3(1,2) by (intro exI conjI)
  moreover have "\<exists>r1 w1' r2 w2' out.
      sqlForPartialUpdate_st d1 j1 w1 = Some (r1, w1') \<and>
      sqlForPartialUpdate_st d2 j2 w2 = Some (r2, w2') \<and>
      observe w1' r1 = Some out \<and> observe w2' r2 = Some out"
    using 1(1,2) 2 by (intro exI conjI)
  ultimately show ?thesis
    by (intro conjI)
qed

text \<open>
  The theorem at two different stores that hold the same field map and the same table.
\<close>

theorem sqlForPartialUpdate_deterministic_witness:
  "(\<exists>r1 w1' r2 w2' out.
      sqlForPartialUpdate_st 0 1
        \<lparr>heap = [Fields [(''title'', JStr ''x'')], Names (object_literal [(''companyHandle'', ''company_handle'')])],
         trace = []\<rparr> = Some (r1, w1') \<and>
      sqlForPartialUpdate_st 2 0
        \<lparr>heap = [Names (object_literal [(''companyHandle'', ''company_handle'')]), Values [JNum 5],
                 Fields [(''title'', JStr ''x'')]],
         trace = [DbQuery ''SELECT * FROM jobs ORDER BY id'' []]\<rparr> = Some (r2, w2') \<and>
      observe w1' r1 = Some out \<and> observe w2' r2 = Some out)
   \<and> (\<exists>r wa r' wb out.
      sqlForPartialUpdate_st 0 1
        \<lparr>heap = [Fields [(''title'', JStr ''x'')], Names (object_literal [(''companyHandle'', ''company_handle'')])],
         trace = []\<rparr> = Some (r, wa) \<and>
      sqlForPartialUpdate_st 0 1 wa = Some (r', wb) \<and>
      observe wa r = Some out \<and> observe wb r = Some out \<and> observe wb r' = Some out)"
proof -
  let ?m = "[(''title'', JStr ''x'')]"
  let ?t = "object_literal [(''companyHandle'', ''company_handle'')]"
  let ?w1 = "\<lparr>heap = [Fields ?m, Names ?t], trace = []\<rparr>"
  let ?w2 = "\<lparr>heap = [Names ?t, Values [JNum 5], Fields ?m],
    trace = [DbQuery ''SELECT * FROM jobs ORDER BY id'' []]\<rparr>"
  have "deref ?w1 0 = Some (Fields ?m)" and "deref ?w1 1 = Some (Names ?t)"
    and "deref ?w2 2 = Some (Fields ?m)" and "deref ?w2 0 = Some (Names ?t)"
    by (simp_all add: deref_def)
  then show ?thesis
    by (rule sqlForPartialUpdate_deterministic)
qed

text \<open>
  C8. The builder is pure with respect to its inputs. A call on references to a field map
  and a translation table returns, adds no event to the trace, and leaves every cell that
  existed before the call unchanged; in particular both arguments hold after the call the
  properties they held before it, in the same order.
\<close>

theorem sqlForPartialUpdate_pure:
  assumes "deref w d = Some (Fields m)" and "deref w j = Some (Names t)"
  shows "\<exists>res w'. sqlForPartialUpdate_st d j w = Some (res, w')
           \<and> trace w' = trace w
           \<and> (\<forall>a. a < length (heap w) \<longrightarrow> deref w' a = deref w a)
           \<and> deref w' d = Some (Fields m) \<and> deref w' j = Some (Names t)"
proof -
  obtain res w' where call: "sqlForPartialUpdate_st d j w = Some (res, w')"
    and io: "trace w' = trace w"
    and frame: "\<forall>a. a < length (heap w) \<longrightarrow> deref w' a = deref w a"
    using sqlForPartialUpdate_st_frame [OF assms] by blast
  from assms have "d < length (heap w)" and "j < length (heap w)"
    by (simp_all add: deref_Some_less)
  with frame assms have "deref w' d = Some (Fields m)" and "deref w' j = Some (Names t)"
    by simp_all
  with call io frame show ?thesis
    by (intro exI conjI)
qed

text \<open>
  The theorem at a store of three cells and a trace of one earlier query.
\<close>

theorem sqlForPartialUpdate_pure_witness:
  "\<exists>res w'.
      sqlForPartialUpdate_st 1 2
        \<lparr>heap = [Values [JNum 5], Fields [(''title'', JStr ''x'')],
                 Names (object_literal [(''companyHandle'', ''company_handle'')])],
         trace = [DbQuery ''SELECT * FROM jobs ORDER BY id'' []]\<rparr> = Some (res, w')
      \<and> trace w' = [DbQuery ''SELECT * FROM jobs ORDER BY id'' []]
      \<and> deref w' 0 = Some (Values [JNum 5])
      \<and> deref w' 1 = Some (Fields [(''title'', JStr ''x'')])
      \<and> deref w' 2 = Some (Names (object_literal [(''companyHandle'', ''company_handle'')]))"
proof -
  let ?m = "[(''title'', JStr ''x'')]"
  let ?t = "object_literal [(''companyHandle'', ''company_handle'')]"
  let ?w = "\<lparr>heap = [Values [JNum 5], Fields ?m, Names ?t],
    trace = [DbQuery ''SELECT * FROM jobs ORDER BY id'' []]\<rparr>"
  have "deref ?w 1 = Some (Fields ?m)" and "deref ?w 2 = Some (Names ?t)"
    by (simp_all add: deref_def)
  from sqlForPartialUpdate_pure [OF this]
  obtain res w' where call: "sqlForPartialUpdate_st 1 2 ?w = Some (res, w')"
    and io: "trace w' = trace ?w"
    and frame: "\<forall>a. a < length (heap ?w) \<longrightarrow> deref w' a = deref ?w a"
    and args: "deref w' 1 = Some (Fields ?m)" "deref w' 2 = Some (Names ?t)"
    by blast
  from frame have "deref w' 0 = deref ?w 0"
    by simp
  then have "deref w' 0 = Some (Values [JNum 5])"
    by (simp add: deref_def)
  with call io args show ?thesis
    by (intro exI [of _ res] exI [of _ w']) simp
qed

section \<open>The caller of the builder\<close>

text \<open>
  C5. \<^verbatim>\<open>Job.update("7", {title: "x"})\<close> does not bind the job id as the parameter after the
  values of the field map. The statement it sends has the id written into its text,
  \<^verbatim>\<open>WHERE id = 7\<close>, not a placeholder \<^verbatim>\<open>$2\<close>, and the array of parameters it sends is
  \<^verbatim>\<open>["x"]\<close>, of one element: the id is not appended. \<^verbatim>\<open>Job.get\<close> and
  \<^verbatim>\<open>Job.remove\<close> of the same class bind the id as \<^verbatim>\<open>$1\<close>.
\<close>

theorem Job_update_interpolates_id:
  \<open>map_option (\<lambda>(res, w'). trace w')
     (Job_update db_rows ''7'' 0 \<lparr>heap = [Fields [(''title'', JStr ''x'')]], trace = []\<rparr>)
   = Some [DbQuery
       (''UPDATE jobs\<newline>'' @
        ''                      SET "title"=$1 \<newline>'' @
        ''                      WHERE id = 7 \<newline>'' @
        ''                      RETURNING id, \<newline>'' @
        ''                                title, \<newline>'' @
        ''                                salary, \<newline>'' @
        ''                                equity,\<newline>'' @
        ''                                company_handle AS "companyHandle"'')
       [JStr ''x'']]\<close>
  by (simp add: Job_update_def sqlForPartialUpdate_st_def alloc_def deref_def eval_defs
      querySql_text_def Let_def split: list.split)

end
